theory Spec2Isabelle
  imports Main
begin

section \<open>pdfsign: the signature inspector \<^verbatim>\<open>verify_signature.py\<close>\<close>

text \<open>
  The script opens a PDF with the PyPDF2 library, walks
  trailer \<open>\<rightarrow>\<close> \<^verbatim>\<open>/Root\<close> \<open>\<rightarrow>\<close> \<^verbatim>\<open>/AcroForm\<close> \<open>\<rightarrow>\<close> \<^verbatim>\<open>/Fields\<close> \<open>\<rightarrow>\<close> each field \<open>\<rightarrow>\<close> its \<^verbatim>\<open>/V\<close>,
  prints what it finds and returns a boolean. Everything is wrapped in one
  \<^verbatim>\<open>try ... except Exception\<close>.

  The embedding keeps the shape of the script. Printing and the file system are
  explicit state (a \<open>world\<close>), every Python exception is a value (\<open>Inl e\<close>), the
  \<^verbatim>\<open>for\<close> loop is a recursive function over the list it iterates. PyPDF2 is not part of
  the repository: its parser, its rendering of values and the address at which a run
  holds the reader are parameters (\<open>env\<close>), and the object table of a parsed file is
  a function held by the reader.
\<close>

subsection \<open>Values\<close>

text \<open>
  The values the library hands to the script: NullObject, NumberObject,
  TextStringObject and NameObject (both subclasses of Python's \<^verbatim>\<open>str\<close>), ArrayObject
  (a \<^verbatim>\<open>list\<close>), DictionaryObject (a \<^verbatim>\<open>dict\<close>; an association list whose first entry for a
  key is the one in force) and IndirectObject (object number, generation).
  \<open>PyStr\<close> is a plain Python string, which is no PdfObject: iterating over a string
  yields such values. A string is held as the bytes of its UTF-8 encoding.
\<close>

datatype pdfobj =
    Null
  | Number int
  | Text string
  | Name string
  | Array "pdfobj list"
  | Dictionary "(string \<times> pdfobj) list"
  | Indirect nat nat
  | PyStr string

text \<open>
  Exceptions, all of them instances of Python's \<^verbatim>\<open>Exception\<close>: \<open>OSError\<close> of \<^verbatim>\<open>open\<close>
  (with the path), \<open>KeyError\<close> of a dictionary subscript (with the key), \<open>TypeError\<close>
  and \<open>AttributeError\<close> of an operation the value's class does not have, and
  \<open>LibraryError\<close> for whatever the library raises (with its message).
\<close>

datatype exn =
    OSError string
  | KeyError string
  | TypeError
  | AttributeError
  | LibraryError string

text \<open>
  A reader is what \<^verbatim>\<open>PyPDF2.PdfReader(f)\<close> returns: its trailer dictionary, and the
  library's resolution of an indirect reference (\<^verbatim>\<open>IndirectObject.get_object()\<close>).
\<close>

record reader =
  trailer :: "(string \<times> pdfobj) list"
  resolve :: "nat \<Rightarrow> nat \<Rightarrow> exn + pdfobj"

text \<open>
  One run of the interpreter with the library, as far as the script depends on it: the
  parser (a function of the file's bytes), \<^verbatim>\<open>id(pdf_reader)\<close>, the address at which this run
  holds the reader, \<^verbatim>\<open>str()\<close> of a value that is neither a string nor a reference, and
  \<^verbatim>\<open>str()\<close> of an exception. The address is not a function of the file: it changes from
  one run to the next.
\<close>

record env =
  PdfReader :: "string \<Rightarrow> exn + reader"
  reader_id :: nat
  str_obj :: "pdfobj \<Rightarrow> string"
  str_exn :: "exn \<Rightarrow> string"

text \<open>The state the script can touch: the files (path to content) and standard output,
  one entry per call of \<^verbatim>\<open>print\<close>.\<close>

record world =
  files :: "string \<Rightarrow> string option"
  stdout :: "string list"

subsection \<open>Python operations on the values\<close>

definition print :: "world \<Rightarrow> string \<Rightarrow> world" where
  "print w s = w\<lparr>stdout := stdout w @ [s]\<rparr>"

text \<open>\<^verbatim>\<open>open(path, 'rb')\<close>: a file that cannot be read raises; mode \<^verbatim>\<open>'rb'\<close> neither creates
  nor truncates, so the world is returned as it was.\<close>

definition open_rb :: "world \<Rightarrow> string \<Rightarrow> world \<times> (exn + string)" where
  "open_rb w path =
     (case files w path of
        None \<Rightarrow> (w, Inl (OSError path))
      | Some content \<Rightarrow> (w, Inr content))"

text \<open>\<^verbatim>\<open>x.get_object()\<close>: an indirect reference is resolved by the library, any other
  PdfObject is returned as it is, a plain string has no such method.\<close>

fun get_object :: "reader \<Rightarrow> pdfobj \<Rightarrow> exn + pdfobj" where
  "get_object r (Indirect n g) = resolve r n g"
| "get_object r (PyStr s) = Inl AttributeError"
| "get_object r v = Inr v"

text \<open>\<^verbatim>\<open>x[key]\<close> with a string key: \<^verbatim>\<open>DictionaryObject.__getitem__\<close> looks the key up and
  resolves what it finds; every other class refuses a string subscript.\<close>

fun getitem :: "reader \<Rightarrow> pdfobj \<Rightarrow> string \<Rightarrow> exn + pdfobj" where
  "getitem r (Dictionary d) k =
     (case map_of d k of None \<Rightarrow> Inl (KeyError k) | Some v \<Rightarrow> get_object r v)"
| "getitem r v k = Inl TypeError"

text \<open>\<^verbatim>\<open>x == "literal"\<close>: true for a string of any of the three string classes with that
  content, false for everything else.\<close>

fun str_eq :: "pdfobj \<Rightarrow> string \<Rightarrow> bool" where
  "str_eq (Name s) k = (s = k)"
| "str_eq (Text s) k = (s = k)"
| "str_eq (PyStr s) k = (s = k)"
| "str_eq v k = False"

fun starts_with :: "string \<Rightarrow> string \<Rightarrow> bool" where
  "starts_with [] s = True"
| "starts_with (c # cs) [] = False"
| "starts_with (c # cs) (d # ds) = (c = d \<and> starts_with cs ds)"

fun substring :: "string \<Rightarrow> string \<Rightarrow> bool" where
  "substring k [] = (k = [])"
| "substring k (c # cs) = (starts_with k (c # cs) \<or> substring k cs)"

text \<open>\<^verbatim>\<open>key in x\<close>: key membership for a dictionary, element membership for a list,
  the substring test for a string, a TypeError for a value that is no container.\<close>

fun contains :: "pdfobj \<Rightarrow> string \<Rightarrow> exn + bool" where
  "contains (Dictionary d) k = Inr (k \<in> set (map fst d))"
| "contains (Array xs) k = Inr (list_ex (\<lambda>x. str_eq x k) xs)"
| "contains (Text s) k = Inr (substring k s)"
| "contains (Name s) k = Inr (substring k s)"
| "contains (PyStr s) k = Inr (substring k s)"
| "contains v k = Inl TypeError"

text \<open>The characters of a string: in UTF-8 a character is a first byte followed by its
  continuation bytes (\<open>0x80\<close> to \<open>0xBF\<close>).\<close>

definition is_cont :: "char \<Rightarrow> bool" where
  "is_cont c = (128 \<le> (of_char c :: nat) \<and> (of_char c :: nat) < 192)"

function utf8_chars :: "string \<Rightarrow> string list" where
  "utf8_chars [] = []"
| "utf8_chars (c # cs) = (c # takeWhile is_cont cs) # utf8_chars (dropWhile is_cont cs)"
  by pat_completeness auto
termination
  by (relation "measure length") (auto simp: length_dropWhile_le less_Suc_eq_le)

text \<open>\<^verbatim>\<open>len(x)\<close> and the items \<^verbatim>\<open>for item in x\<close> visits: the elements of a list, the keys
  of a dictionary, the characters of a string.\<close>

fun py_len :: "pdfobj \<Rightarrow> exn + nat" where
  "py_len (Array xs) = Inr (length xs)"
| "py_len (Dictionary d) = Inr (length (remdups (map fst d)))"
| "py_len (Text s) = Inr (length (utf8_chars s))"
| "py_len (Name s) = Inr (length (utf8_chars s))"
| "py_len (PyStr s) = Inr (length (utf8_chars s))"
| "py_len v = Inl TypeError"

fun py_iter :: "pdfobj \<Rightarrow> exn + pdfobj list" where
  "py_iter (Array xs) = Inr xs"
| "py_iter (Dictionary d) = Inr (map Name (remdups (map fst d)))"
| "py_iter (Text s) = Inr (map PyStr (utf8_chars s))"
| "py_iter (Name s) = Inr (map PyStr (utf8_chars s))"
| "py_iter (PyStr s) = Inr (map PyStr (utf8_chars s))"
| "py_iter v = Inl TypeError"

text \<open>\<^verbatim>\<open>f"{n}"\<close> for a non-negative integer: decimal digits.\<close>

fun str_nat :: "nat \<Rightarrow> string" where
  "str_nat n =
     (if n < 10 then [''0123456789'' ! n]
      else str_nat (n div 10) @ [''0123456789'' ! (n mod 10)])"

declare str_nat.simps [simp del]

text \<open>\<^verbatim>\<open>str(x)\<close>, as an f-string applies it. A string is its own content. A reference is
  shown by \<^verbatim>\<open>IndirectObject.__repr__\<close>, which is
  \<^verbatim>\<open>f"IndirectObject({idnum!r}, {generation!r}, {id(pdf)})"\<close>: the two numbers and the address
  of the reader. Any other value is rendered by the library.\<close>

fun py_str :: "env \<Rightarrow> pdfobj \<Rightarrow> string" where
  "py_str env (Text s) = s"
| "py_str env (Name s) = s"
| "py_str env (PyStr s) = s"
| "py_str env (Indirect n g) =
     ''IndirectObject('' @ str_nat n @ '', '' @ str_nat g @ '', '' @ str_nat (reader_id env) @ '')''"
| "py_str env v = str_obj env v"

text \<open>\<^verbatim>\<open>f"{x.get(key, default)}"\<close>: \<^verbatim>\<open>dict.get\<close> returns the stored value unresolved, or the
  default; only a dictionary has the method.\<close>

fun fmt_get :: "env \<Rightarrow> pdfobj \<Rightarrow> string \<Rightarrow> string \<Rightarrow> exn + string" where
  "fmt_get env (Dictionary d) k dflt =
     Inr (case map_of d k of None \<Rightarrow> dflt | Some v \<Rightarrow> py_str env v)"
| "fmt_get env v k dflt = Inl AttributeError"

subsection \<open>The lines the script prints\<close>

text \<open>The three non-ASCII signs of the script's messages, in UTF-8.\<close>

definition check_mark :: string where
  "check_mark = [CHR 0xE2, CHR 0x9C, CHR 0x93]"

definition cross_mark :: string where
  "cross_mark = [CHR 0xE2, CHR 0x9C, CHR 0x97]"

definition memo_sign :: string where
  "memo_sign = [CHR 0xF0, CHR 0x9F, CHR 0x93, CHR 0x9D]"

definition acroform_line :: string where
  "acroform_line = check_mark @ '' PDF has AcroForm signature structure''"

definition found_line :: "nat \<Rightarrow> string" where
  "found_line n = check_mark @ '' Found '' @ str_nat n @ '' signature field(s)''"

definition details_line :: string where
  "details_line = CHR 0x0A # memo_sign @ '' Signature Details:''"

definition no_signature_line :: string where
  "no_signature_line = cross_mark @ '' No signature found in PDF''"

definition error_line :: "env \<Rightarrow> exn \<Rightarrow> string" where
  "error_line env e = cross_mark @ '' Error reading PDF: '' @ str_exn env e"

definition usage_line :: string where
  "usage_line = ''Usage: python verify_signature.py <pdf_file>''"

subsection \<open>The script\<close>

text \<open>A statement of the script: the world after it, and the exception it raised or the
  value it produced. \<open>seq\<close> runs the next statement unless the first one raised.\<close>

type_synonym 'a outcome = "world \<times> (exn + 'a)"

definition seq :: "unit outcome \<Rightarrow> (world \<Rightarrow> 'a outcome) \<Rightarrow> 'a outcome" where
  "seq m f = (case m of (w, Inl e) \<Rightarrow> (w, Inl e) | (w, Inr u) \<Rightarrow> f w)"

text \<open>One line \<^verbatim>\<open>print(f"<label>{x.get(key, default)}")\<close>: the argument is evaluated first,
  so nothing is printed when it raises.\<close>

definition print_get :: "env \<Rightarrow> world \<Rightarrow> string \<Rightarrow> pdfobj \<Rightarrow> string \<Rightarrow> string \<Rightarrow> unit outcome" where
  "print_get env w label x k dflt =
     (case fmt_get env x k dflt of
        Inl e \<Rightarrow> (w, Inl e)
      | Inr s \<Rightarrow> (print w (label @ s), Inr ()))"

text \<open>Lines 29 to 34: the six lines printed from the signature dictionary.\<close>

definition print_sig_dict :: "env \<Rightarrow> world \<Rightarrow> pdfobj \<Rightarrow> unit outcome" where
  "print_sig_dict env w sig_dict =
     seq (print_get env w ''   - Filter: '' sig_dict ''/Filter'' ''Unknown'') (\<lambda>w.
     seq (print_get env w ''   - SubFilter: '' sig_dict ''/SubFilter'' ''Unknown'') (\<lambda>w.
     seq (print_get env w ''   - Reason: '' sig_dict ''/Reason'' ''N/A'') (\<lambda>w.
     seq (print_get env w ''   - Location: '' sig_dict ''/Location'' ''N/A'') (\<lambda>w.
     seq (print_get env w ''   - Date: '' sig_dict ''/M'' ''N/A'') (\<lambda>w.
     print_get env w ''   - Signer: '' sig_dict ''/Name'' ''Unknown'')))))"

text \<open>Lines 22 to 34: the body of the loop, for one entry of \<^verbatim>\<open>/Fields\<close>.\<close>

definition for_body :: "env \<Rightarrow> reader \<Rightarrow> world \<Rightarrow> pdfobj \<Rightarrow> unit outcome" where
  "for_body env r w field_ref =
     (case get_object r field_ref of
        Inl e \<Rightarrow> (w, Inl e)
      | Inr field \<Rightarrow>
     (case getitem r field ''/FT'' of
        Inl e \<Rightarrow> (w, Inl e)
      | Inr ft \<Rightarrow>
     if str_eq ft ''/Sig'' then
       seq (print_get env (print w details_line) ''   - Field Name: '' field ''/T'' ''Unknown'') (\<lambda>w.
       (case contains field ''/V'' of
          Inl e \<Rightarrow> (w, Inl e)
        | Inr False \<Rightarrow> (w, Inr ())
        | Inr True \<Rightarrow>
       (case getitem r field ''/V'' of
          Inl e \<Rightarrow> (w, Inl e)
        | Inr v \<Rightarrow>
       (case get_object r v of
          Inl e \<Rightarrow> (w, Inl e)
        | Inr sig_dict \<Rightarrow> print_sig_dict env w sig_dict))))
     else (w, Inr ())))"

text \<open>Line 21: the loop stops at the first entry whose body raises.\<close>

fun for_fields :: "env \<Rightarrow> reader \<Rightarrow> world \<Rightarrow> pdfobj list \<Rightarrow> unit outcome" where
  "for_fields env r w [] = (w, Inr ())"
| "for_fields env r w (field_ref # rest) =
     (case for_body env r w field_ref of
        (w', Inl e) \<Rightarrow> (w', Inl e)
      | (w', Inr u) \<Rightarrow> for_fields env r w' rest)"

text \<open>Lines 9 to 38: the body of the \<^verbatim>\<open>with\<close> block, given the content of the opened
  file. \<^verbatim>\<open>pdf_reader.trailer["/Root"]\<close> is evaluated twice, as in the script.\<close>

definition with_block :: "env \<Rightarrow> world \<Rightarrow> string \<Rightarrow> bool outcome" where
  "with_block env w f =
     (case PdfReader env f of
        Inl e \<Rightarrow> (w, Inl e)
      | Inr pdf_reader \<Rightarrow>
     (case getitem pdf_reader (Dictionary (trailer pdf_reader)) ''/Root'' of
        Inl e \<Rightarrow> (w, Inl e)
      | Inr root \<Rightarrow>
     (case contains root ''/AcroForm'' of
        Inl e \<Rightarrow> (w, Inl e)
      | Inr False \<Rightarrow> (print w no_signature_line, Inr False)
      | Inr True \<Rightarrow>
     (case getitem pdf_reader (Dictionary (trailer pdf_reader)) ''/Root'' of
        Inl e \<Rightarrow> (w, Inl e)
      | Inr root' \<Rightarrow>
     (case getitem pdf_reader root' ''/AcroForm'' of
        Inl e \<Rightarrow> (w, Inl e)
      | Inr acroform \<Rightarrow>
     (let w1 = print w acroform_line in
     (case contains acroform ''/Fields'' of
        Inl e \<Rightarrow> (w1, Inl e)
      | Inr False \<Rightarrow> (w1, Inr True)
      | Inr True \<Rightarrow>
     (case getitem pdf_reader acroform ''/Fields'' of
        Inl e \<Rightarrow> (w1, Inl e)
      | Inr field_list \<Rightarrow>
     (case py_len field_list of
        Inl e \<Rightarrow> (w1, Inl e)
      | Inr n \<Rightarrow>
     (let w2 = print w1 (found_line n) in
     (case py_iter field_list of
        Inl e \<Rightarrow> (w2, Inl e)
      | Inr items \<Rightarrow>
     (case for_fields env pdf_reader w2 items of
        (w3, Inl e) \<Rightarrow> (w3, Inl e)
      | (w3, Inr u) \<Rightarrow> (w3, Inr True)))))))))))))"

text \<open>Lines 8 to 38: what stands inside \<^verbatim>\<open>try\<close>.\<close>

definition try_block :: "env \<Rightarrow> world \<Rightarrow> string \<Rightarrow> bool outcome" where
  "try_block env w pdf_path =
     (case open_rb w pdf_path of
        (w', Inl e) \<Rightarrow> (w', Inl e)
      | (w', Inr f) \<Rightarrow> with_block env w' f)"

text \<open>Lines 5 to 42: \<^verbatim>\<open>except Exception as e\<close> prints the message and returns False.\<close>

definition verify_pdf_signature :: "env \<Rightarrow> world \<Rightarrow> string \<Rightarrow> bool outcome" where
  "verify_pdf_signature env w pdf_path =
     (case try_block env w pdf_path of
        (w', Inl e) \<Rightarrow> (print w' (error_line env e), Inr False)
      | (w', Inr b) \<Rightarrow> (w', Inr b))"

text \<open>Lines 44 to 49: the entry point, with the exit code of the process.
  \<^verbatim>\<open>sys.exit(1)\<close> ends it with 1, an exception that reaches the top level does too, and
  running off the end of the script ends it with 0. The value
  \<open>verify_pdf_signature\<close> returns is not used.\<close>

definition main :: "env \<Rightarrow> world \<Rightarrow> string list \<Rightarrow> world \<times> int" where
  "main env w argv =
     (if length argv < 2 then (print w usage_line, 1)
      else (case verify_pdf_signature env w (argv ! 1) of
              (w', Inl e) \<Rightarrow> (w', 1)
            | (w', Inr b) \<Rightarrow> (w', 0)))"

subsection \<open>Output relative to a starting world\<close>

text \<open>\<open>shift w0 w\<close> is \<open>w0\<close> with the output of \<open>w\<close> appended; \<open>blank\<close> has no files and
  no output. They serve to say that what a statement prints does not depend on the
  world it starts in.\<close>

definition shift :: "world \<Rightarrow> world \<Rightarrow> world" where
  "shift w0 w = w0\<lparr>stdout := stdout w0 @ stdout w\<rparr>"

definition blank :: world where
  "blank = \<lparr>files = (\<lambda>p. None), stdout = []\<rparr>"

subsection \<open>Signature fields and the lines printed for them\<close>



subsection \<open>Example documents\<close>

text \<open>Parsed documents used to run the model on concrete inputs. \<open>table_resolve\<close> is a
  library that resolves a reference by looking it up in the object table.
  \<open>signed_reader\<close> has three fields: a signed signature field, a text field and an
  unsigned signature field. \<open>cyclic_reader\<close> has a signature field whose \<^verbatim>\<open>/V\<close> refers
  back to the field itself. In \<open>selfref_reader\<close> object 3 is a reference to itself, and
  the library gives up on it with an exception. \<open>byref_reader\<close> has a signature field
  whose \<^verbatim>\<open>/T\<close> and \<^verbatim>\<open>/Reason\<close> are stored as references to string objects, which the PDF
  format allows for any entry of a dictionary. \<open>group_reader\<close> has a field without \<^verbatim>\<open>/FT\<close>
  between two signature fields.\<close>

definition table_resolve :: "((nat \<times> nat) \<times> pdfobj) list \<Rightarrow> nat \<Rightarrow> nat \<Rightarrow> exn + pdfobj" where
  "table_resolve t n g =
     (case map_of t (n, g) of
        None \<Rightarrow> Inl (LibraryError ''Could not find object'')
      | Some v \<Rightarrow> Inr v)"

definition signed_reader :: reader where
  "signed_reader =
     \<lparr>trailer = [(''/Root'', Indirect 1 0)],
      resolve = table_resolve
        [((1, 0), Dictionary [(''/Type'', Name ''/Catalog''), (''/AcroForm'', Indirect 2 0)]),
         ((2, 0), Dictionary [(''/Fields'', Array [Indirect 3 0, Indirect 4 0, Indirect 5 0])]),
         ((3, 0), Dictionary [(''/FT'', Name ''/Sig''), (''/T'', Text ''A''), (''/V'', Indirect 6 0)]),
         ((4, 0), Dictionary [(''/FT'', Name ''/Tx''), (''/T'', Text ''note'')]),
         ((5, 0), Dictionary [(''/FT'', Name ''/Sig''), (''/T'', Text ''B'')]),
         ((6, 0), Dictionary [(''/Filter'', Name ''/Adobe.PPKLite''), (''/Reason'', Text ''Approval'')])]\<rparr>"

definition unsigned_reader :: reader where
  "unsigned_reader =
     \<lparr>trailer = [(''/Root'', Indirect 1 0)],
      resolve = table_resolve
        [((1, 0), Dictionary [(''/Type'', Name ''/Catalog''), (''/Pages'', Indirect 2 0)]),
         ((2, 0), Dictionary [(''/Type'', Name ''/Pages'')])]\<rparr>"

definition form_reader :: reader where
  "form_reader =
     \<lparr>trailer = [(''/Root'', Indirect 1 0)],
      resolve = table_resolve
        [((1, 0), Dictionary [(''/Type'', Name ''/Catalog''), (''/AcroForm'', Indirect 2 0)]),
         ((2, 0), Dictionary [(''/NeedAppearances'', Name ''true'')])]\<rparr>"

definition noft_reader :: reader where
  "noft_reader =
     \<lparr>trailer = [(''/Root'', Indirect 1 0)],
      resolve = table_resolve
        [((1, 0), Dictionary [(''/AcroForm'', Indirect 2 0)]),
         ((2, 0), Dictionary [(''/Fields'', Array [Indirect 3 0])]),
         ((3, 0), Dictionary [(''/T'', Text ''group''), (''/Kids'', Array [])])]\<rparr>"

definition cyclic_reader :: reader where
  "cyclic_reader =
     \<lparr>trailer = [(''/Root'', Indirect 1 0)],
      resolve = table_resolve
        [((1, 0), Dictionary [(''/AcroForm'', Indirect 2 0)]),
         ((2, 0), Dictionary [(''/Fields'', Array [Indirect 3 0])]),
         ((3, 0), Dictionary [(''/FT'', Name ''/Sig''), (''/T'', Text ''loop''), (''/V'', Indirect 3 0)])]\<rparr>"

definition selfref_reader :: reader where
  "selfref_reader =
     \<lparr>trailer = [(''/Root'', Indirect 1 0)],
      resolve = (\<lambda>n g.
        if (n, g) = (3, 0) then Inl (LibraryError ''maximum recursion depth exceeded'')
        else table_resolve
          [((1, 0), Dictionary [(''/AcroForm'', Indirect 2 0)]),
           ((2, 0), Dictionary [(''/Fields'', Array [Indirect 4 0, Indirect 3 0])]),
           ((4, 0), Dictionary [(''/FT'', Name ''/Tx'')])] n g)\<rparr>"

definition byref_reader :: reader where
  "byref_reader =
     \<lparr>trailer = [(''/Root'', Indirect 1 0)],
      resolve = table_resolve
        [((1, 0), Dictionary [(''/AcroForm'', Indirect 2 0)]),
         ((2, 0), Dictionary [(''/Fields'', Array [Indirect 3 0])]),
         ((3, 0), Dictionary [(''/FT'', Name ''/Sig''), (''/T'', Indirect 4 0), (''/V'', Indirect 5 0)]),
         ((4, 0), Text ''A''),
         ((5, 0), Dictionary [(''/Filter'', Name ''/Adobe.PPKLite''), (''/Reason'', Indirect 6 0)]),
         ((6, 0), Text ''Approval'')]\<rparr>"

definition group_reader :: reader where
  "group_reader =
     \<lparr>trailer = [(''/Root'', Indirect 1 0)],
      resolve = table_resolve
        [((1, 0), Dictionary [(''/AcroForm'', Indirect 2 0)]),
         ((2, 0), Dictionary [(''/Fields'', Array [Indirect 3 0, Indirect 4 0, Indirect 5 0])]),
         ((3, 0), Dictionary [(''/FT'', Name ''/Sig''), (''/T'', Text ''A'')]),
         ((4, 0), Dictionary [(''/T'', Text ''group''), (''/Kids'', Array [])]),
         ((5, 0), Dictionary [(''/FT'', Name ''/Sig''), (''/T'', Text ''B'')])]\<rparr>"

definition example_env :: env where
  "example_env =
     \<lparr>PdfReader = (\<lambda>f.
        if f = ''signed'' then Inr signed_reader
        else if f = ''unsigned'' then Inr unsigned_reader
        else if f = ''form'' then Inr form_reader
        else if f = ''noft'' then Inr noft_reader
        else if f = ''cyclic'' then Inr cyclic_reader
        else if f = ''selfref'' then Inr selfref_reader
        else if f = ''byref'' then Inr byref_reader
        else if f = ''group'' then Inr group_reader
        else Inl (LibraryError ''EOF marker not found'')),
      reader_id = 140224,
      str_obj = (\<lambda>v. ''<object>''),
      str_exn = (\<lambda>e. case e of
          OSError p \<Rightarrow> ''[Errno 2] No such file or directory: '' @ [CHR 0x27] @ p @ [CHR 0x27]
        | KeyError k \<Rightarrow> [CHR 0x27] @ k @ [CHR 0x27]
        | TypeError \<Rightarrow> ''unsupported operand''
        | AttributeError \<Rightarrow> ''object has no such attribute''
        | LibraryError m \<Rightarrow> m)\<rparr>"

definition example_world :: world where
  "example_world =
     \<lparr>files = (\<lambda>p.
        if p = ''signed.pdf'' then Some ''signed''
        else if p = ''copy.pdf'' then Some ''signed''
        else if p = ''unsigned.pdf'' then Some ''unsigned''
        else if p = ''form.pdf'' then Some ''form''
        else if p = ''noft.pdf'' then Some ''noft''
        else if p = ''cyclic.pdf'' then Some ''cyclic''
        else if p = ''selfref.pdf'' then Some ''selfref''
        else if p = ''byref.pdf'' then Some ''byref''
        else if p = ''group.pdf'' then Some ''group''
        else if p = ''notes.txt'' then Some ''hello''
        else None),
      stdout = []\<rparr>"

lemmas ex_defs = example_world_def example_env_def signed_reader_def unsigned_reader_def form_reader_def
  noft_reader_def cyclic_reader_def selfref_reader_def byref_reader_def group_reader_def
  table_resolve_def
lemmas run_defs = verify_pdf_signature_def try_block_def open_rb_def with_block_def for_body_def
  print_sig_dict_def print_get_def seq_def print_def main_def

section \<open>Properties\<close>

subsection \<open>Printing is independent of the starting world\<close>

lemma shift_blank: "shift w blank = w"
  by (simp add: shift_def blank_def)

lemma print_shift: "print (shift w0 w) s = shift w0 (print w s)"
  by (simp add: shift_def print_def)

lemma print_get_shift:
  "print_get env (shift w0 w) l x k d =
     (shift w0 (fst (print_get env w l x k d)), snd (print_get env w l x k d))"
  by (simp add: print_get_def print_shift split: sum.splits)

lemma seq_shift:
  assumes "m' = (shift w0 (fst m), snd m)"
    and "\<And>w. f (shift w0 w) = (shift w0 (fst (f w)), snd (f w))"
  shows "seq m' f = (shift w0 (fst (seq m f)), snd (seq m f))"
  using assms by (cases m) (auto simp: seq_def split: sum.splits)

lemma print_sig_dict_shift:
  "print_sig_dict env (shift w0 w) x =
     (shift w0 (fst (print_sig_dict env w x)), snd (print_sig_dict env w x))"
  unfolding print_sig_dict_def
  by (intro seq_shift print_get_shift)

lemma for_body_shift:
  "for_body env r (shift w0 w) x =
     (shift w0 (fst (for_body env r w x)), snd (for_body env r w x))"
  unfolding for_body_def
  by (auto split: sum.splits bool.splits intro!: seq_shift simp: print_sig_dict_shift print_get_shift print_shift)

lemma for_fields_shift:
  "for_fields env r (shift w0 w) xs =
     (shift w0 (fst (for_fields env r w xs)), snd (for_fields env r w xs))"
proof (induction xs arbitrary: w)
  case Nil
  show ?case by simp
next
  case (Cons x xs)
  show ?case
    by (cases "for_body env r w x") (auto simp: for_body_shift Cons.IH split: sum.splits)
qed

lemma with_block_shift:
  "with_block env (shift w0 w) f =
     (shift w0 (fst (with_block env w f)), snd (with_block env w f))"
  unfolding with_block_def
  by (auto simp: Let_def print_shift for_fields_shift split: sum.splits bool.splits prod.splits)

lemma shift_alt: "shift w v = w\<lparr>stdout := stdout w @ stdout v\<rparr>"
  by (simp add: shift_def)

lemma with_block_frame:
  "with_block env w f =
     (w\<lparr>stdout := stdout w @ stdout (fst (with_block env blank f))\<rparr>, snd (with_block env blank f))"
  using with_block_shift [of env w blank f, unfolded shift_blank] by (simp add: shift_alt)

lemma verify_readable:
  assumes "files w p = Some f"
  shows "verify_pdf_signature env w p =
     (case snd (with_block env blank f) of
        Inl e \<Rightarrow> (w\<lparr>stdout := stdout w @ stdout (fst (with_block env blank f)) @ [error_line env e]\<rparr>, Inr False)
      | Inr b \<Rightarrow> (w\<lparr>stdout := stdout w @ stdout (fst (with_block env blank f))\<rparr>, Inr b))"
  using assms
  by (subst verify_pdf_signature_def, simp add: try_block_def open_rb_def, subst with_block_frame)
     (simp add: print_def split: sum.splits)

lemma verify_unreadable:
  assumes "files w p = None"
  shows "verify_pdf_signature env w p = (print w (error_line env (OSError p)), Inr False)"
  using assms by (simp add: verify_pdf_signature_def try_block_def open_rb_def)

lemma verify_returns: "\<exists>b. snd (verify_pdf_signature env w p) = Inr b"
proof (cases "try_block env w p")
  case (Pair w' res)
  then show ?thesis by (cases res) (auto simp: verify_pdf_signature_def)
qed

lemma verify_frame: "\<exists>out. fst (verify_pdf_signature env w p) = w\<lparr>stdout := stdout w @ out\<rparr>"
proof (cases "files w p")
  case None
  then show ?thesis by (simp add: verify_unreadable print_def) (rule exI, rule refl)
next
  case (Some f)
  then show ?thesis
    by (cases "snd (with_block env blank f)"; simp add: verify_readable) (rule exI, rule refl)+
qed


subsection \<open>The loop and the branches of the script\<close>

lemma for_fields_append:
  "for_fields env r w (xs @ ys) =
     (case for_fields env r w xs of
        (w', Inl e) \<Rightarrow> (w', Inl e)
      | (w', Inr u) \<Rightarrow> for_fields env r w' ys)"
  by (induction xs arbitrary: w) (auto split: prod.splits sum.splits)

lemma contains_dict: "contains (Dictionary d) k = Inr (map_of d k \<noteq> None)"
  by (simp add: map_of_eq_None_iff)

lemma for_body_not_sig:
  assumes "get_object r x = Inr field" and "getitem r field ''/FT'' = Inr ft" and "\<not> str_eq ft ''/Sig''"
  shows "for_body env r w x = (w, Inr ())"
  using assms by (simp add: for_body_def)

lemma for_body_no_FT:
  assumes "get_object r x = Inr (Dictionary d)" and "map_of d ''/FT'' = None"
  shows "for_body env r w x = (w, Inl (KeyError ''/FT''))"
  using assms by (simp add: for_body_def)

lemma for_fields_no_sig:
  assumes "\<forall>x\<in>set xs. \<exists>field ft. get_object r x = Inr field \<and> getitem r field ''/FT'' = Inr ft \<and> \<not> str_eq ft ''/Sig''"
  shows "for_fields env r w xs = (w, Inr ())"
  using assms by (induction xs) (auto simp: for_body_not_sig)

lemma with_block_True_iff:
  assumes "PdfReader env f = Inr r"
  shows "snd (with_block env w f) = Inr True \<longleftrightarrow>
     (\<exists>root. getitem r (Dictionary (trailer r)) ''/Root'' = Inr root \<and> contains root ''/AcroForm'' = Inr True)
     \<and> (\<forall>e. snd (with_block env w f) \<noteq> Inl e)"
  using assms
  by (auto simp: with_block_def Let_def simp del: getitem.simps contains.simps
        split: sum.splits bool.splits prod.splits)

subsection \<open>What the loop body prints\<close>

lemma print_alt: "print w s = w\<lparr>stdout := stdout w @ [s]\<rparr>"
  by (simp add: print_def)

lemma print_sig_dict_lines:
  "print_sig_dict env w (Dictionary sig_dict) =
     (w\<lparr>stdout := stdout w @
        [''   - Filter: '' @ (case map_of sig_dict ''/Filter'' of None \<Rightarrow> ''Unknown'' | Some t \<Rightarrow> py_str env t),
         ''   - SubFilter: '' @ (case map_of sig_dict ''/SubFilter'' of None \<Rightarrow> ''Unknown'' | Some t \<Rightarrow> py_str env t),
         ''   - Reason: '' @ (case map_of sig_dict ''/Reason'' of None \<Rightarrow> ''N/A'' | Some t \<Rightarrow> py_str env t),
         ''   - Location: '' @ (case map_of sig_dict ''/Location'' of None \<Rightarrow> ''N/A'' | Some t \<Rightarrow> py_str env t),
         ''   - Date: '' @ (case map_of sig_dict ''/M'' of None \<Rightarrow> ''N/A'' | Some t \<Rightarrow> py_str env t),
         ''   - Signer: '' @ (case map_of sig_dict ''/Name'' of None \<Rightarrow> ''Unknown'' | Some t \<Rightarrow> py_str env t)]\<rparr>,
      Inr ())"
  by (simp add: print_sig_dict_def seq_def print_get_def print_def)


lemma for_body_signed:
  assumes "get_object r field_ref = Inr (Dictionary field)"
    and "getitem r (Dictionary field) ''/FT'' = Inr ft"
    and "str_eq ft ''/Sig''"
    and "getitem r (Dictionary field) ''/V'' = Inr v"
    and "get_object r v = Inr (Dictionary sig_dict)"
  shows "for_body env r w field_ref =
     (w\<lparr>stdout := stdout w @
        [details_line,
         ''   - Field Name: '' @ (case map_of field ''/T'' of None \<Rightarrow> ''Unknown'' | Some t \<Rightarrow> py_str env t),
         ''   - Filter: '' @ (case map_of sig_dict ''/Filter'' of None \<Rightarrow> ''Unknown'' | Some t \<Rightarrow> py_str env t),
         ''   - SubFilter: '' @ (case map_of sig_dict ''/SubFilter'' of None \<Rightarrow> ''Unknown'' | Some t \<Rightarrow> py_str env t),
         ''   - Reason: '' @ (case map_of sig_dict ''/Reason'' of None \<Rightarrow> ''N/A'' | Some t \<Rightarrow> py_str env t),
         ''   - Location: '' @ (case map_of sig_dict ''/Location'' of None \<Rightarrow> ''N/A'' | Some t \<Rightarrow> py_str env t),
         ''   - Date: '' @ (case map_of sig_dict ''/M'' of None \<Rightarrow> ''N/A'' | Some t \<Rightarrow> py_str env t),
         ''   - Signer: '' @ (case map_of sig_dict ''/Name'' of None \<Rightarrow> ''Unknown'' | Some t \<Rightarrow> py_str env t)]\<rparr>,
      Inr ())"
proof -
  from assms(4) have "map_of field ''/V'' \<noteq> None"
    by (auto split: option.splits)
  with assms show ?thesis
    by (simp add: for_body_def seq_def print_get_def contains_dict print_sig_dict_lines print_alt
          del: getitem.simps contains.simps)
qed




lemma line_not_details [simp]:
  "CHR '' '' # s \<noteq> details_line" "details_line \<noteq> CHR '' '' # s"
  by (simp_all add: details_line_def)




lemma for_body_unresolved:
  assumes "resolve r n g = Inl e"
  shows "for_body env r w (Indirect n g) = (w, Inl e)"
  using assms by (simp add: for_body_def)

lemma for_body_cycle:
  assumes "get_object r x = Inr (Dictionary field)"
    and "getitem r (Dictionary field) ''/FT'' = Inr ft"
    and "str_eq ft ''/Sig''"
    and "getitem r (Dictionary field) ''/V'' = Inr (Dictionary field)"
  shows "snd (for_body env r w x) = Inr ()"
  using for_body_signed [OF assms(1,2,3,4), of field env w] by simp

lemma start_lines:
  "print (print w acroform_line) (found_line n) =
     w\<lparr>stdout := stdout w @
        [[CHR 0xE2, CHR 0x9C, CHR 0x93] @ '' PDF has AcroForm signature structure'',
         [CHR 0xE2, CHR 0x9C, CHR 0x93] @ '' Found '' @ str_nat n @ '' signature field(s)'']\<rparr>"
  by (simp add: print_def acroform_line_def found_line_def check_mark_def)

lemma with_block_loop:
  assumes "PdfReader env f = Inr r"
    and "getitem r (Dictionary (trailer r)) ''/Root'' = Inr root"
    and "contains root ''/AcroForm'' = Inr True"
    and "getitem r root ''/AcroForm'' = Inr acroform"
    and "contains acroform ''/Fields'' = Inr True"
    and "getitem r acroform ''/Fields'' = Inr (Array xs)"
  shows "with_block env w f =
     (case for_fields env r
        (w\<lparr>stdout := stdout w @
           [[CHR 0xE2, CHR 0x9C, CHR 0x93] @ '' PDF has AcroForm signature structure'',
            [CHR 0xE2, CHR 0x9C, CHR 0x93] @ '' Found '' @ str_nat (length xs) @ '' signature field(s)'']\<rparr>) xs of
        (w3, Inl e) \<Rightarrow> (w3, Inl e)
      | (w3, Inr u) \<Rightarrow> (w3, Inr True))"
  unfolding start_lines [symmetric] using assms
  by (simp add: with_block_def del: getitem.simps contains.simps)

lemma for_body_cycle_lines:
  assumes "get_object r x = Inr (Dictionary field)"
    and "getitem r (Dictionary field) ''/FT'' = Inr ft"
    and "str_eq ft ''/Sig''"
    and "getitem r (Dictionary field) ''/V'' = Inr (Dictionary field)"
  shows "for_body env r w x =
     (w\<lparr>stdout := stdout w @
        [CHR 0x0A # [CHR 0xF0, CHR 0x9F, CHR 0x93, CHR 0x9D] @ '' Signature Details:'',
         ''   - Field Name: '' @ (case map_of field ''/T'' of None \<Rightarrow> ''Unknown'' | Some t \<Rightarrow> py_str env t),
         ''   - Filter: '' @ (case map_of field ''/Filter'' of None \<Rightarrow> ''Unknown'' | Some t \<Rightarrow> py_str env t),
         ''   - SubFilter: '' @ (case map_of field ''/SubFilter'' of None \<Rightarrow> ''Unknown'' | Some t \<Rightarrow> py_str env t),
         ''   - Reason: '' @ (case map_of field ''/Reason'' of None \<Rightarrow> ''N/A'' | Some t \<Rightarrow> py_str env t),
         ''   - Location: '' @ (case map_of field ''/Location'' of None \<Rightarrow> ''N/A'' | Some t \<Rightarrow> py_str env t),
         ''   - Date: '' @ (case map_of field ''/M'' of None \<Rightarrow> ''N/A'' | Some t \<Rightarrow> py_str env t),
         ''   - Signer: '' @ (case map_of field ''/Name'' of None \<Rightarrow> ''Unknown'' | Some t \<Rightarrow> py_str env t)]\<rparr>,
      Inr ())"
  using for_body_signed [OF assms(1,2,3,4), of field env w]
  by (simp add: details_line_def memo_sign_def)








subsection \<open>Effects\<close>

text \<open>
  Claim C10. Extraction has no side effect beyond read-only access to the input: the
  file is opened in mode \<^verbatim>\<open>'rb'\<close> and never written, and nothing else persistent is
  written. In the model the world after \<open>verify_pdf_signature\<close> (and after \<open>main\<close>)
  is the world before it with lines appended to standard output; the files are the
  same, for every library, every world and every path.
\<close>

theorem input_never_written:
  "(\<exists>out. fst (verify_pdf_signature env w p) = w\<lparr>stdout := stdout w @ out\<rparr>)
   \<and> files (fst (verify_pdf_signature env w p)) = files w
   \<and> (\<exists>out. fst (main env w argv) = w\<lparr>stdout := stdout w @ out\<rparr>)
   \<and> files (fst (main env w argv)) = files w"
proof -
  obtain out where v: "fst (verify_pdf_signature env w p) = w\<lparr>stdout := stdout w @ out\<rparr>"
    using verify_frame by blast
  obtain out' where v': "fst (verify_pdf_signature env w (argv ! 1)) = w\<lparr>stdout := stdout w @ out'\<rparr>"
    using verify_frame by blast
  have m: "\<exists>out. fst (main env w argv) = w\<lparr>stdout := stdout w @ out\<rparr>"
  proof (cases "length argv < 2")
    case True
    then show ?thesis by (simp add: main_def print_def) (rule exI, rule refl)
  next
    case False
    then have "fst (main env w argv) = fst (verify_pdf_signature env w (argv ! 1))"
      by (simp add: main_def split: prod.splits sum.splits)
    with v' show ?thesis by auto
  qed
  then obtain out2 where m2: "fst (main env w argv) = w\<lparr>stdout := stdout w @ out2\<rparr>" by blast
  show ?thesis using v m m2 by auto
qed


subsection \<open>The command line\<close>

text \<open>
  Claim C1, as stated: the program exits with 1 when no argument is given, with 0 when
  the file is read, and with a non-zero code when the file is unreadable or
  unparseable. The last part fails: \<open>main\<close> does not look at what
  \<open>verify_pdf_signature\<close> returns, so a missing file and a file that is no PDF both end
  with exit code 0.
\<close>

theorem unreadable_exits_zero:
  "files example_world ''missing.pdf'' = None
   \<and> snd (main example_env example_world [''verify_signature.py'', ''missing.pdf'']) = 0
   \<and> files example_world ''notes.txt'' = Some ''hello''
   \<and> PdfReader example_env ''hello'' = Inl (LibraryError ''EOF marker not found'')
   \<and> snd (main example_env example_world [''verify_signature.py'', ''notes.txt'']) = 0"
  by (simp add: run_defs ex_defs)

text \<open>
  Claim C1, amended: the exit code is 1 exactly when fewer than two entries are in
  \<^verbatim>\<open>sys.argv\<close> (the usage line is printed then), and 0 in every other case, also for an
  unreadable or unparseable file, whose failure is reported by the printed line
  \<open>error_line\<close> only.
\<close>

theorem main_exit_code:
  "snd (main env w argv) = (if length argv < 2 then 1 else 0)
   \<and> (length argv < 2 \<longrightarrow> fst (main env w argv) = print w usage_line)
   \<and> (2 \<le> length argv \<and> files w (argv ! 1) = None \<longrightarrow>
        fst (main env w argv) = print w (error_line env (OSError (argv ! 1))))
   \<and> (\<forall>f e. 2 \<le> length argv \<and> files w (argv ! 1) = Some f \<and> PdfReader env f = Inl e \<longrightarrow>
        fst (main env w argv) = print w (error_line env e))"
proof -
  obtain b where "snd (verify_pdf_signature env w (argv ! 1)) = Inr b"
    using verify_returns by blast
  then have code: "snd (main env w argv) = (if length argv < 2 then 1 else 0)"
    by (cases "verify_pdf_signature env w (argv ! 1)") (simp add: main_def)
  have usage: "length argv < 2 \<longrightarrow> fst (main env w argv) = print w usage_line"
    by (simp add: main_def)
  have missing: "2 \<le> length argv \<and> files w (argv ! 1) = None \<longrightarrow>
        fst (main env w argv) = print w (error_line env (OSError (argv ! 1)))"
    by (simp add: main_def verify_unreadable)
  have broken: "\<forall>f e. 2 \<le> length argv \<and> files w (argv ! 1) = Some f \<and> PdfReader env f = Inl e \<longrightarrow>
        fst (main env w argv) = print w (error_line env e)"
    by (simp add: main_def verify_pdf_signature_def try_block_def open_rb_def with_block_def)
  show ?thesis using code usage missing broken by blast
qed

theorem main_exit_code_witness:
  "snd (main example_env example_world [''verify_signature.py'']) = 1
   \<and> fst (main example_env example_world [''verify_signature.py'']) = print example_world usage_line
   \<and> snd (main example_env example_world [''verify_signature.py'', ''signed.pdf'']) = 0
   \<and> snd (main example_env example_world [''verify_signature.py'', ''missing.pdf'']) = 0
   \<and> fst (main example_env example_world [''verify_signature.py'', ''missing.pdf'']) =
        print example_world (error_line example_env (OSError ''missing.pdf''))
   \<and> snd (main example_env example_world [''verify_signature.py'', ''notes.txt'']) = 0
   \<and> fst (main example_env example_world [''verify_signature.py'', ''notes.txt'']) =
        print example_world (error_line example_env (LibraryError ''EOF marker not found''))"
proof -
  have missing: "files example_world ''missing.pdf'' = None"
    by (simp add: example_world_def)
  have unparsed: "files example_world ''notes.txt'' = Some ''hello''"
    "PdfReader example_env ''hello'' = Inl (LibraryError ''EOF marker not found'')"
    by (simp_all add: example_world_def example_env_def)
  have a: "snd (main example_env example_world [''verify_signature.py'']) = 1
         \<and> fst (main example_env example_world [''verify_signature.py'']) = print example_world usage_line"
    using main_exit_code [of example_env example_world "[''verify_signature.py'']"] by simp
  have b: "snd (main example_env example_world [''verify_signature.py'', ''signed.pdf'']) = 0"
    using main_exit_code [of example_env example_world "[''verify_signature.py'', ''signed.pdf'']"] by simp
  have c: "snd (main example_env example_world [''verify_signature.py'', ''missing.pdf'']) = 0
         \<and> fst (main example_env example_world [''verify_signature.py'', ''missing.pdf'']) =
              print example_world (error_line example_env (OSError ''missing.pdf''))"
    using main_exit_code [of example_env example_world "[''verify_signature.py'', ''missing.pdf'']"] missing
    by simp
  have d: "snd (main example_env example_world [''verify_signature.py'', ''notes.txt'']) = 0
         \<and> fst (main example_env example_world [''verify_signature.py'', ''notes.txt'']) =
              print example_world (error_line example_env (LibraryError ''EOF marker not found''))"
    using main_exit_code [of example_env example_world "[''verify_signature.py'', ''notes.txt'']"] unparsed
    by simp
  from a b c d show ?thesis by blast
qed

subsection \<open>Documents without signatures\<close>

text \<open>
  Claim C2. For a PDF whose catalog has no \<^verbatim>\<open>/AcroForm\<close> key nothing is extracted and
  nothing is raised: the body of \<^verbatim>\<open>try\<close> ends normally with False, so the handler is
  not entered, and the only line printed is \<open>no_signature_line\<close>; no signature
  details are printed.
\<close>

theorem no_acroform_returns_false:
  assumes "files w p = Some f"
    and "PdfReader env f = Inr r"
    and "getitem r (Dictionary (trailer r)) ''/Root'' = Inr (Dictionary catalog)"
    and "map_of catalog ''/AcroForm'' = None"
  shows "try_block env w p = (print w no_signature_line, Inr False)
       \<and> verify_pdf_signature env w p = (print w no_signature_line, Inr False)"
  using assms
  by (simp add: verify_pdf_signature_def try_block_def open_rb_def with_block_def contains_dict
        del: getitem.simps contains.simps)

theorem no_acroform_returns_false_witness:
  "try_block example_env example_world ''unsigned.pdf'' = (print example_world no_signature_line, Inr False)
   \<and> verify_pdf_signature example_env example_world ''unsigned.pdf'' = (print example_world no_signature_line, Inr False)"
  by (rule no_acroform_returns_false [where f = "''unsigned''" and r = unsigned_reader
        and catalog = "[(''/Type'', Name ''/Catalog''), (''/Pages'', Indirect 2 0)]"])
     (simp_all add: ex_defs)


text \<open>
  Claim C7. For a PDF whose catalog has \<^verbatim>\<open>/AcroForm\<close> but whose AcroForm dictionary has no
  \<^verbatim>\<open>/Fields\<close> key, no signature details are printed and no error occurs: the only line
  printed is \<open>acroform_line\<close> and the function returns True.
\<close>

theorem acroform_without_fields:
  assumes "files w p = Some f"
    and "PdfReader env f = Inr r"
    and "getitem r (Dictionary (trailer r)) ''/Root'' = Inr (Dictionary catalog)"
    and "getitem r (Dictionary catalog) ''/AcroForm'' = Inr (Dictionary acroform)"
    and "map_of acroform ''/Fields'' = None"
  shows "verify_pdf_signature env w p = (print w acroform_line, Inr True)"
proof -
  from assms(4) have "map_of catalog ''/AcroForm'' \<noteq> None"
    by (auto split: option.splits)
  with assms show ?thesis
    by (simp add: verify_pdf_signature_def try_block_def open_rb_def with_block_def contains_dict
          del: getitem.simps contains.simps)
qed

theorem acroform_without_fields_witness:
  "verify_pdf_signature example_env example_world ''form.pdf'' = (print example_world acroform_line, Inr True)"
  by (rule acroform_without_fields [where f = "''form''" and r = form_reader
        and catalog = "[(''/Type'', Name ''/Catalog''), (''/AcroForm'', Indirect 2 0)]"
        and acroform = "[(''/NeedAppearances'', Name ''true'')]"])
     (simp_all add: ex_defs)


text \<open>
  Claim C3. For a readable, parseable PDF \<open>verify_pdf_signature\<close> returns True if and
  only if \<^verbatim>\<open>"/AcroForm" in\<close> the root catalog is true and the body of \<^verbatim>\<open>try\<close> raises no
  exception. It returns True also when the AcroForm has no \<^verbatim>\<open>/Fields\<close>, and when none of
  the fields is a signature field: the result signals the presence of an AcroForm,
  not of a signature.
\<close>

theorem true_iff_acroform:
  assumes "files w p = Some f" and "PdfReader env f = Inr r"
  shows "(snd (verify_pdf_signature env w p) = Inr True \<longleftrightarrow>
            (\<exists>root. getitem r (Dictionary (trailer r)) ''/Root'' = Inr root
                   \<and> contains root ''/AcroForm'' = Inr True)
          \<and> (\<forall>e. snd (try_block env w p) \<noteq> Inl e))
       \<and> (\<forall>catalog acroform.
            getitem r (Dictionary (trailer r)) ''/Root'' = Inr (Dictionary catalog)
          \<and> getitem r (Dictionary catalog) ''/AcroForm'' = Inr (Dictionary acroform)
          \<and> map_of acroform ''/Fields'' = None
          \<longrightarrow> snd (verify_pdf_signature env w p) = Inr True)
       \<and> (\<forall>catalog acroform xs.
            getitem r (Dictionary (trailer r)) ''/Root'' = Inr (Dictionary catalog)
          \<and> getitem r (Dictionary catalog) ''/AcroForm'' = Inr (Dictionary acroform)
          \<and> getitem r (Dictionary acroform) ''/Fields'' = Inr (Array xs)
          \<and> (\<forall>x\<in>set xs. \<exists>field ft. get_object r x = Inr field
                \<and> getitem r field ''/FT'' = Inr ft \<and> \<not> str_eq ft ''/Sig'')
          \<longrightarrow> snd (verify_pdf_signature env w p) = Inr True)"
proof -
  have tb: "try_block env w p = with_block env w f"
    using assms(1) by (simp add: try_block_def open_rb_def)
  have v: "snd (verify_pdf_signature env w p) = Inr True \<longleftrightarrow> snd (with_block env w f) = Inr True"
    by (cases "with_block env w f") (auto simp: verify_pdf_signature_def tb split: sum.splits)
  have iff: "snd (verify_pdf_signature env w p) = Inr True \<longleftrightarrow>
            (\<exists>root. getitem r (Dictionary (trailer r)) ''/Root'' = Inr root
                   \<and> contains root ''/AcroForm'' = Inr True)
          \<and> (\<forall>e. snd (try_block env w p) \<noteq> Inl e)"
    unfolding v tb by (rule with_block_True_iff [OF assms(2)])
  have nofields: "snd (verify_pdf_signature env w p) = Inr True"
    if "getitem r (Dictionary (trailer r)) ''/Root'' = Inr (Dictionary catalog)"
      and "getitem r (Dictionary catalog) ''/AcroForm'' = Inr (Dictionary acroform)"
      and "map_of acroform ''/Fields'' = None"
    for catalog acroform
  proof -
    from that(2) have "map_of catalog ''/AcroForm'' \<noteq> None"
      by (auto split: option.splits)
    with that assms(2) show ?thesis
      unfolding v by (simp add: with_block_def contains_dict del: getitem.simps contains.simps)
  qed
  have nosig: "snd (verify_pdf_signature env w p) = Inr True"
    if "getitem r (Dictionary (trailer r)) ''/Root'' = Inr (Dictionary catalog)"
      and "getitem r (Dictionary catalog) ''/AcroForm'' = Inr (Dictionary acroform)"
      and "getitem r (Dictionary acroform) ''/Fields'' = Inr (Array xs)"
      and "\<forall>x\<in>set xs. \<exists>field ft. get_object r x = Inr field
                \<and> getitem r field ''/FT'' = Inr ft \<and> \<not> str_eq ft ''/Sig''"
    for catalog acroform xs
  proof -
    from that(2) have a: "map_of catalog ''/AcroForm'' \<noteq> None"
      by (auto split: option.splits)
    from that(3) have b: "map_of acroform ''/Fields'' \<noteq> None"
      by (auto split: option.splits)
    show ?thesis
      unfolding v using that(1,2,3) assms(2) a b
      by (simp add: with_block_def contains_dict for_fields_no_sig [OF that(4)]
            del: getitem.simps contains.simps)
  qed
  show ?thesis using iff nofields nosig by blast
qed

theorem true_iff_acroform_witness:
  "snd (verify_pdf_signature example_env example_world ''form.pdf'') = Inr True
   \<and> snd (verify_pdf_signature example_env example_world ''unsigned.pdf'') \<noteq> Inr True
   \<and> contains (Dictionary [(''/Type'', Name ''/Catalog''), (''/Pages'', Indirect 2 0)]) ''/AcroForm'' = Inr False"
proof -
  have f: "files example_world ''form.pdf'' = Some ''form''" "PdfReader example_env ''form'' = Inr form_reader"
    by (simp_all add: ex_defs)
  have g: "getitem form_reader (Dictionary (trailer form_reader)) ''/Root''
             = Inr (Dictionary [(''/Type'', Name ''/Catalog''), (''/AcroForm'', Indirect 2 0)])
         \<and> getitem form_reader (Dictionary [(''/Type'', Name ''/Catalog''), (''/AcroForm'', Indirect 2 0)]) ''/AcroForm''
             = Inr (Dictionary [(''/NeedAppearances'', Name ''true'')])
         \<and> map_of [(''/NeedAppearances'', Name ''true'')] ''/Fields'' = None"
    by (simp add: ex_defs)
  from true_iff_acroform [OF f, THEN conjunct2, THEN conjunct1] g
  have a: "snd (verify_pdf_signature example_env example_world ''form.pdf'') = Inr True"
    by blast
  have u: "files example_world ''unsigned.pdf'' = Some ''unsigned''"
    "PdfReader example_env ''unsigned'' = Inr unsigned_reader"
    by (simp_all add: ex_defs)
  have nc: "\<not> (\<exists>root. getitem unsigned_reader (Dictionary (trailer unsigned_reader)) ''/Root'' = Inr root
                 \<and> contains root ''/AcroForm'' = Inr True)"
    by (simp add: ex_defs)
  from true_iff_acroform [OF u, THEN conjunct1] nc
  have b: "snd (verify_pdf_signature example_env example_world ''unsigned.pdf'') \<noteq> Inr True"
    by blast
  have c: "contains (Dictionary [(''/Type'', Name ''/Catalog''), (''/Pages'', Indirect 2 0)]) ''/AcroForm'' = Inr False"
    by simp
  from a b c show ?thesis by (intro conjI)
qed

subsection \<open>Failures\<close>

text \<open>
  Claim C9. \<open>verify_pdf_signature\<close> never propagates an exception: it always returns a
  boolean. When the body of \<^verbatim>\<open>try\<close> returns, its value is returned and nothing more is
  printed. When it raises, the line "Error reading PDF: " with the exception's text
  is printed after the lines printed so far and False is returned; so for an
  unreadable file, for a file the library cannot parse, and for a field without
  \<^verbatim>\<open>/FT\<close> (a KeyError) at any position of \<^verbatim>\<open>/Fields\<close>. The printed lines are written out
  in full.
\<close>

theorem failures_are_caught:
  "(\<exists>b. snd (verify_pdf_signature env w p) = Inr b)
   \<and> (\<forall>w' b. try_block env w p = (w', Inr b) \<longrightarrow> verify_pdf_signature env w p = (w', Inr b))
   \<and> (\<forall>w' e. try_block env w p = (w', Inl e) \<longrightarrow>
         verify_pdf_signature env w p =
           (w'\<lparr>stdout := stdout w' @
              [[CHR 0xE2, CHR 0x9C, CHR 0x97] @ '' Error reading PDF: '' @ str_exn env e]\<rparr>, Inr False))
   \<and> (files w p = None \<longrightarrow>
         verify_pdf_signature env w p =
           (w\<lparr>stdout := stdout w @
              [[CHR 0xE2, CHR 0x9C, CHR 0x97] @ '' Error reading PDF: '' @ str_exn env (OSError p)]\<rparr>, Inr False))
   \<and> (\<forall>f e. files w p = Some f \<and> PdfReader env f = Inl e \<longrightarrow>
         verify_pdf_signature env w p =
           (w\<lparr>stdout := stdout w @
              [[CHR 0xE2, CHR 0x9C, CHR 0x97] @ '' Error reading PDF: '' @ str_exn env e]\<rparr>, Inr False))
   \<and> (\<forall>f r root acroform pre x post d w'.
         files w p = Some f \<and> PdfReader env f = Inr r
       \<and> getitem r (Dictionary (trailer r)) ''/Root'' = Inr root
       \<and> contains root ''/AcroForm'' = Inr True
       \<and> getitem r root ''/AcroForm'' = Inr acroform
       \<and> contains acroform ''/Fields'' = Inr True
       \<and> getitem r acroform ''/Fields'' = Inr (Array (pre @ x # post))
       \<and> for_fields env r
            (w\<lparr>stdout := stdout w @
               [[CHR 0xE2, CHR 0x9C, CHR 0x93] @ '' PDF has AcroForm signature structure'',
                [CHR 0xE2, CHR 0x9C, CHR 0x93] @ '' Found '' @ str_nat (length (pre @ x # post))
                  @ '' signature field(s)'']\<rparr>) pre = (w', Inr ())
       \<and> get_object r x = Inr (Dictionary d) \<and> map_of d ''/FT'' = None
       \<longrightarrow> verify_pdf_signature env w p =
           (w'\<lparr>stdout := stdout w' @
              [[CHR 0xE2, CHR 0x9C, CHR 0x97] @ '' Error reading PDF: '' @ str_exn env (KeyError ''/FT'')]\<rparr>,
            Inr False))"
proof -
  have total: "\<exists>b. snd (verify_pdf_signature env w p) = Inr b"
    by (rule verify_returns)
  have returned: "\<forall>w' b. try_block env w p = (w', Inr b) \<longrightarrow> verify_pdf_signature env w p = (w', Inr b)"
    by (simp add: verify_pdf_signature_def)
  have handler: "\<forall>w' e. try_block env w p = (w', Inl e) \<longrightarrow>
         verify_pdf_signature env w p =
           (w'\<lparr>stdout := stdout w' @
              [[CHR 0xE2, CHR 0x9C, CHR 0x97] @ '' Error reading PDF: '' @ str_exn env e]\<rparr>, Inr False)"
    by (simp add: verify_pdf_signature_def print_def error_line_def cross_mark_def)
  have unreadable: "files w p = None \<longrightarrow>
         verify_pdf_signature env w p =
           (w\<lparr>stdout := stdout w @
              [[CHR 0xE2, CHR 0x9C, CHR 0x97] @ '' Error reading PDF: '' @ str_exn env (OSError p)]\<rparr>, Inr False)"
    by (simp add: verify_unreadable print_def error_line_def cross_mark_def)
  have unparseable: "\<forall>f e. files w p = Some f \<and> PdfReader env f = Inl e \<longrightarrow>
         verify_pdf_signature env w p =
           (w\<lparr>stdout := stdout w @
              [[CHR 0xE2, CHR 0x9C, CHR 0x97] @ '' Error reading PDF: '' @ str_exn env e]\<rparr>, Inr False)"
    by (simp add: verify_pdf_signature_def try_block_def open_rb_def with_block_def
          print_def error_line_def cross_mark_def)
  have noft: "verify_pdf_signature env w p =
           (w'\<lparr>stdout := stdout w' @
              [[CHR 0xE2, CHR 0x9C, CHR 0x97] @ '' Error reading PDF: '' @ str_exn env (KeyError ''/FT'')]\<rparr>,
            Inr False)"
    if "files w p = Some f" "PdfReader env f = Inr r"
      "getitem r (Dictionary (trailer r)) ''/Root'' = Inr root"
      "contains root ''/AcroForm'' = Inr True"
      "getitem r root ''/AcroForm'' = Inr acroform"
      "contains acroform ''/Fields'' = Inr True"
      "getitem r acroform ''/Fields'' = Inr (Array (pre @ x # post))"
      "for_fields env r
            (w\<lparr>stdout := stdout w @
               [[CHR 0xE2, CHR 0x9C, CHR 0x93] @ '' PDF has AcroForm signature structure'',
                [CHR 0xE2, CHR 0x9C, CHR 0x93] @ '' Found '' @ str_nat (length (pre @ x # post))
                  @ '' signature field(s)'']\<rparr>) pre = (w', Inr ())"
      "get_object r x = Inr (Dictionary d)" "map_of d ''/FT'' = None"
    for f r root acroform pre x post d w'
  proof -
    have start: "print (print w acroform_line) (found_line (length (pre @ x # post))) =
        w\<lparr>stdout := stdout w @
               [[CHR 0xE2, CHR 0x9C, CHR 0x93] @ '' PDF has AcroForm signature structure'',
                [CHR 0xE2, CHR 0x9C, CHR 0x93] @ '' Found '' @ str_nat (length (pre @ x # post))
                  @ '' signature field(s)'']\<rparr>"
      by (simp add: print_def acroform_line_def found_line_def check_mark_def)
    have "for_fields env r (print (print w acroform_line) (found_line (length (pre @ x # post))))
            (pre @ x # post) = (w', Inl (KeyError ''/FT''))"
      unfolding start using that(8) by (simp add: for_fields_append for_body_no_FT [OF that(9,10)])
    then have "with_block env w f = (w', Inl (KeyError ''/FT''))"
      using that(2-7)
      by (simp add: with_block_def del: getitem.simps contains.simps)
    then show ?thesis
      using that(1)
      by (simp add: verify_pdf_signature_def try_block_def open_rb_def print_def error_line_def cross_mark_def)
  qed
  show ?thesis using total returned handler unreadable unparseable noft by blast
qed

theorem failures_are_caught_witness:
  "verify_pdf_signature example_env example_world ''missing.pdf'' =
      (example_world\<lparr>stdout :=
         [[CHR 0xE2, CHR 0x9C, CHR 0x97] @ '' Error reading PDF: [Errno 2] No such file or directory: ''
            @ [CHR 0x27] @ ''missing.pdf'' @ [CHR 0x27]]\<rparr>, Inr False)
   \<and> verify_pdf_signature example_env example_world ''notes.txt'' =
      (example_world\<lparr>stdout :=
         [[CHR 0xE2, CHR 0x9C, CHR 0x97] @ '' Error reading PDF: EOF marker not found'']\<rparr>, Inr False)
   \<and> verify_pdf_signature example_env example_world ''noft.pdf'' =
      (example_world\<lparr>stdout :=
         [[CHR 0xE2, CHR 0x9C, CHR 0x93] @ '' PDF has AcroForm signature structure'',
          [CHR 0xE2, CHR 0x9C, CHR 0x93] @ '' Found 1 signature field(s)'',
          [CHR 0xE2, CHR 0x9C, CHR 0x97] @ '' Error reading PDF: '' @ [CHR 0x27] @ ''/FT'' @ [CHR 0x27]]\<rparr>,
       Inr False)"
proof -
  note c = failures_are_caught [of example_env example_world]
  have out: "stdout example_world = []"
    by (simp add: example_world_def)
  have se: "str_exn example_env (OSError ''missing.pdf'') =
        ''[Errno 2] No such file or directory: '' @ [CHR 0x27] @ ''missing.pdf'' @ [CHR 0x27]"
      "str_exn example_env (LibraryError ''EOF marker not found'') = ''EOF marker not found''"
      "str_exn example_env (KeyError ''/FT'') = [CHR 0x27] @ ''/FT'' @ [CHR 0x27]"
    by (simp_all add: example_env_def)
  have "files example_world ''missing.pdf'' = None"
    by (simp add: example_world_def)
  with c [of "''missing.pdf''"] have a: "verify_pdf_signature example_env example_world ''missing.pdf'' =
      (example_world\<lparr>stdout :=
         [[CHR 0xE2, CHR 0x9C, CHR 0x97] @ '' Error reading PDF: [Errno 2] No such file or directory: ''
            @ [CHR 0x27] @ ''missing.pdf'' @ [CHR 0x27]]\<rparr>, Inr False)"
    by (simp add: out se)
  have "files example_world ''notes.txt'' = Some ''hello''
      \<and> PdfReader example_env ''hello'' = Inl (LibraryError ''EOF marker not found'')"
    by (simp add: example_world_def example_env_def)
  with c [of "''notes.txt''"] have b: "verify_pdf_signature example_env example_world ''notes.txt'' =
      (example_world\<lparr>stdout :=
         [[CHR 0xE2, CHR 0x9C, CHR 0x97] @ '' Error reading PDF: EOF marker not found'']\<rparr>, Inr False)"
    by (simp add: out se)
  have one: "str_nat (length ([] @ Indirect 3 0 # [])) = ''1''"
    by (simp add: str_nat.simps)
  have "files example_world ''noft.pdf'' = Some ''noft'' \<and> PdfReader example_env ''noft'' = Inr noft_reader
       \<and> getitem noft_reader (Dictionary (trailer noft_reader)) ''/Root'' = Inr (Dictionary [(''/AcroForm'', Indirect 2 0)])
       \<and> contains (Dictionary [(''/AcroForm'', Indirect 2 0)]) ''/AcroForm'' = Inr True
       \<and> getitem noft_reader (Dictionary [(''/AcroForm'', Indirect 2 0)]) ''/AcroForm'' = Inr (Dictionary [(''/Fields'', Array [Indirect 3 0])])
       \<and> contains (Dictionary [(''/Fields'', Array [Indirect 3 0])]) ''/Fields'' = Inr True
       \<and> getitem noft_reader (Dictionary [(''/Fields'', Array [Indirect 3 0])]) ''/Fields'' = Inr (Array ([] @ Indirect 3 0 # []))
       \<and> for_fields example_env noft_reader
            (example_world\<lparr>stdout := stdout example_world @
               [[CHR 0xE2, CHR 0x9C, CHR 0x93] @ '' PDF has AcroForm signature structure'',
                [CHR 0xE2, CHR 0x9C, CHR 0x93] @ '' Found '' @ str_nat (length ([] @ Indirect 3 0 # []))
                  @ '' signature field(s)'']\<rparr>) []
            = (example_world\<lparr>stdout := 
               [[CHR 0xE2, CHR 0x9C, CHR 0x93] @ '' PDF has AcroForm signature structure'',
                [CHR 0xE2, CHR 0x9C, CHR 0x93] @ '' Found 1 signature field(s)'']\<rparr>, Inr ())
       \<and> get_object noft_reader (Indirect 3 0) = Inr (Dictionary [(''/T'', Text ''group''), (''/Kids'', Array [])])
       \<and> map_of [(''/T'', Text ''group''), (''/Kids'', Array [])] ''/FT'' = None"
    unfolding one by (simp add: ex_defs)
  then have "verify_pdf_signature example_env example_world ''noft.pdf'' =
      ((example_world\<lparr>stdout := 
               [[CHR 0xE2, CHR 0x9C, CHR 0x93] @ '' PDF has AcroForm signature structure'',
                [CHR 0xE2, CHR 0x9C, CHR 0x93] @ '' Found 1 signature field(s)'']\<rparr>)
         \<lparr>stdout := stdout (example_world\<lparr>stdout := 
               [[CHR 0xE2, CHR 0x9C, CHR 0x93] @ '' PDF has AcroForm signature structure'',
                [CHR 0xE2, CHR 0x9C, CHR 0x93] @ '' Found 1 signature field(s)'']\<rparr>) @
              [[CHR 0xE2, CHR 0x9C, CHR 0x97] @ '' Error reading PDF: '' @ str_exn example_env (KeyError ''/FT'')]\<rparr>,
            Inr False)"
    using c [of "''noft.pdf''", THEN conjunct2, THEN conjunct2, THEN conjunct2, THEN conjunct2, THEN conjunct2]
    by blast
  then have d: "verify_pdf_signature example_env example_world ''noft.pdf'' =
      (example_world\<lparr>stdout :=
         [[CHR 0xE2, CHR 0x9C, CHR 0x93] @ '' PDF has AcroForm signature structure'',
          [CHR 0xE2, CHR 0x9C, CHR 0x93] @ '' Found 1 signature field(s)'',
          [CHR 0xE2, CHR 0x9C, CHR 0x97] @ '' Error reading PDF: '' @ [CHR 0x27] @ ''/FT'' @ [CHR 0x27]]\<rparr>,
       Inr False)"
    by (simp add: se)
  from a b d show ?thesis by (intro conjI)
qed


subsection \<open>Signature fields\<close>

text \<open>
  Claim C4. For a signature field with \<^verbatim>\<open>/V\<close> the field name, filter, sub-filter, reason,
  location, modification date and signer name are to be extracted, absent keys as
  their defaults. The script reads these seven entries with \<^verbatim>\<open>dict.get\<close>, which returns
  the stored object unresolved, where \<^verbatim>\<open>/FT\<close> and \<^verbatim>\<open>/V\<close> are read with the subscript and
  \<^verbatim>\<open>get_object()\<close>, which resolve. In \<open>byref_reader\<close> the \<^verbatim>\<open>/T\<close> of the field is the reference
  \<^verbatim>\<open>4 0 R\<close> to the string "A" and the \<^verbatim>\<open>/Reason\<close> of its signature is the reference
  \<^verbatim>\<open>6 0 R\<close> to the string "Approval": the script prints the references, not the name
  and the reason.
\<close>

theorem name_by_reference_not_resolved:
  "get_object byref_reader (Indirect 4 0) = Inr (Text ''A'')
   \<and> get_object byref_reader (Indirect 6 0) = Inr (Text ''Approval'')
   \<and> for_body example_env byref_reader example_world (Indirect 3 0) =
       (example_world\<lparr>stdout :=
          [CHR 0x0A # [CHR 0xF0, CHR 0x9F, CHR 0x93, CHR 0x9D] @ '' Signature Details:'',
           ''   - Field Name: IndirectObject(4, 0, 140224)'',
           ''   - Filter: /Adobe.PPKLite'',
           ''   - SubFilter: Unknown'',
           ''   - Reason: IndirectObject(6, 0, 140224)'',
           ''   - Location: N/A'',
           ''   - Date: N/A'',
           ''   - Signer: Unknown'']\<rparr>, Inr ())"
  by (simp add: for_body_def print_sig_dict_def seq_def print_get_def print_def details_line_def
        memo_sign_def ex_defs str_nat.simps)






subsection \<open>Cyclic references\<close>

text \<open>
  Claim C6, as stated: on every input whose cross-reference graph contains a cycle,
  reference resolution fails fast with a CycleDetected error, guarded by a seen-set of
  (object number, generation). The script has neither: it resolves each entry of
  \<^verbatim>\<open>/Fields\<close> and each \<^verbatim>\<open>/V\<close> by one call into the library and goes no deeper. In
  \<open>cyclic_reader\<close> the \<^verbatim>\<open>/V\<close> of object 3 is a reference to object 3; the script prints
  the field with the default values and returns True.
\<close>

theorem cycle_not_detected:
  "get_object cyclic_reader (Indirect 3 0) =
     Inr (Dictionary [(''/FT'', Name ''/Sig''), (''/T'', Text ''loop''), (''/V'', Indirect 3 0)])
   \<and> getitem cyclic_reader (Dictionary [(''/FT'', Name ''/Sig''), (''/T'', Text ''loop''), (''/V'', Indirect 3 0)]) ''/V'' =
     Inr (Dictionary [(''/FT'', Name ''/Sig''), (''/T'', Text ''loop''), (''/V'', Indirect 3 0)])
   \<and> verify_pdf_signature example_env example_world ''cyclic.pdf'' =
     (example_world\<lparr>stdout :=
        [[CHR 0xE2, CHR 0x9C, CHR 0x93] @ '' PDF has AcroForm signature structure'',
         [CHR 0xE2, CHR 0x9C, CHR 0x93] @ '' Found 1 signature field(s)'',
         CHR 0x0A # [CHR 0xF0, CHR 0x9F, CHR 0x93, CHR 0x9D] @ '' Signature Details:'',
         ''   - Field Name: loop'', ''   - Filter: Unknown'', ''   - SubFilter: Unknown'',
         ''   - Reason: N/A'', ''   - Location: N/A'', ''   - Date: N/A'', ''   - Signer: Unknown'']\<rparr>,
      Inr True)"
  by (simp add: run_defs ex_defs acroform_line_def found_line_def details_line_def check_mark_def
        memo_sign_def str_nat.simps)

text \<open>
  Claim C6, amended: resolution is left to the library. When the library raises while
  resolving an entry of \<^verbatim>\<open>/Fields\<close>, the loop stops there, the line "Error reading PDF: "
  with the exception's text is printed after the lines printed so far, and False is
  returned. A cycle that the library resolves without raising is not detected: for a
  signature field whose \<^verbatim>\<open>/V\<close> resolves to the field's own dictionary the loop body prints
  the details line, the field name and the six signature lines, all read from that
  dictionary with the usual defaults, and raises nothing; and when no other entry of
  \<^verbatim>\<open>/Fields\<close> raises, the function returns True.
\<close>

theorem resolution_left_to_library:
  "(\<forall>f r root acroform pre n g post e w'.
         files w p = Some f \<and> PdfReader env f = Inr r
       \<and> getitem r (Dictionary (trailer r)) ''/Root'' = Inr root
       \<and> contains root ''/AcroForm'' = Inr True
       \<and> getitem r root ''/AcroForm'' = Inr acroform
       \<and> contains acroform ''/Fields'' = Inr True
       \<and> getitem r acroform ''/Fields'' = Inr (Array (pre @ Indirect n g # post))
       \<and> for_fields env r
            (w\<lparr>stdout := stdout w @
               [[CHR 0xE2, CHR 0x9C, CHR 0x93] @ '' PDF has AcroForm signature structure'',
                [CHR 0xE2, CHR 0x9C, CHR 0x93] @ '' Found '' @ str_nat (length (pre @ Indirect n g # post))
                  @ '' signature field(s)'']\<rparr>) pre = (w', Inr ())
       \<and> resolve r n g = Inl e
       \<longrightarrow> verify_pdf_signature env w p =
           (w'\<lparr>stdout := stdout w' @
              [[CHR 0xE2, CHR 0x9C, CHR 0x97] @ '' Error reading PDF: '' @ str_exn env e]\<rparr>, Inr False))
   \<and> (\<forall>r x field ft w0.
         get_object r x = Inr (Dictionary field)
       \<and> getitem r (Dictionary field) ''/FT'' = Inr ft
       \<and> str_eq ft ''/Sig''
       \<and> getitem r (Dictionary field) ''/V'' = Inr (Dictionary field)
       \<longrightarrow> for_body env r w0 x =
           (w0\<lparr>stdout := stdout w0 @
              [CHR 0x0A # [CHR 0xF0, CHR 0x9F, CHR 0x93, CHR 0x9D] @ '' Signature Details:'',
               ''   - Field Name: '' @ (case map_of field ''/T'' of None \<Rightarrow> ''Unknown'' | Some t \<Rightarrow> py_str env t),
               ''   - Filter: '' @ (case map_of field ''/Filter'' of None \<Rightarrow> ''Unknown'' | Some t \<Rightarrow> py_str env t),
               ''   - SubFilter: '' @ (case map_of field ''/SubFilter'' of None \<Rightarrow> ''Unknown'' | Some t \<Rightarrow> py_str env t),
               ''   - Reason: '' @ (case map_of field ''/Reason'' of None \<Rightarrow> ''N/A'' | Some t \<Rightarrow> py_str env t),
               ''   - Location: '' @ (case map_of field ''/Location'' of None \<Rightarrow> ''N/A'' | Some t \<Rightarrow> py_str env t),
               ''   - Date: '' @ (case map_of field ''/M'' of None \<Rightarrow> ''N/A'' | Some t \<Rightarrow> py_str env t),
               ''   - Signer: '' @ (case map_of field ''/Name'' of None \<Rightarrow> ''Unknown'' | Some t \<Rightarrow> py_str env t)]\<rparr>,
            Inr ()))
   \<and> (\<forall>f r root acroform pre x post field ft w1 w2.
         files w p = Some f \<and> PdfReader env f = Inr r
       \<and> getitem r (Dictionary (trailer r)) ''/Root'' = Inr root
       \<and> contains root ''/AcroForm'' = Inr True
       \<and> getitem r root ''/AcroForm'' = Inr acroform
       \<and> contains acroform ''/Fields'' = Inr True
       \<and> getitem r acroform ''/Fields'' = Inr (Array (pre @ x # post))
       \<and> for_fields env r
            (w\<lparr>stdout := stdout w @
               [[CHR 0xE2, CHR 0x9C, CHR 0x93] @ '' PDF has AcroForm signature structure'',
                [CHR 0xE2, CHR 0x9C, CHR 0x93] @ '' Found '' @ str_nat (length (pre @ x # post))
                  @ '' signature field(s)'']\<rparr>) pre = (w1, Inr ())
       \<and> get_object r x = Inr (Dictionary field)
       \<and> getitem r (Dictionary field) ''/FT'' = Inr ft
       \<and> str_eq ft ''/Sig''
       \<and> getitem r (Dictionary field) ''/V'' = Inr (Dictionary field)
       \<and> for_fields env r (fst (for_body env r w1 x)) post = (w2, Inr ())
       \<longrightarrow> verify_pdf_signature env w p = (w2, Inr True))"
proof -
  have raised: "verify_pdf_signature env w p =
           (w'\<lparr>stdout := stdout w' @
              [[CHR 0xE2, CHR 0x9C, CHR 0x97] @ '' Error reading PDF: '' @ str_exn env e]\<rparr>, Inr False)"
    if "files w p = Some f" "PdfReader env f = Inr r"
      "getitem r (Dictionary (trailer r)) ''/Root'' = Inr root"
      "contains root ''/AcroForm'' = Inr True"
      "getitem r root ''/AcroForm'' = Inr acroform"
      "contains acroform ''/Fields'' = Inr True"
      "getitem r acroform ''/Fields'' = Inr (Array (pre @ Indirect n g # post))"
      "for_fields env r
            (w\<lparr>stdout := stdout w @
               [[CHR 0xE2, CHR 0x9C, CHR 0x93] @ '' PDF has AcroForm signature structure'',
                [CHR 0xE2, CHR 0x9C, CHR 0x93] @ '' Found '' @ str_nat (length (pre @ Indirect n g # post))
                  @ '' signature field(s)'']\<rparr>) pre = (w', Inr ())"
      "resolve r n g = Inl e"
    for f r root acroform pre n g post e w'
  proof -
    have "with_block env w f = (w', Inl e)"
      unfolding with_block_loop [OF that(2-7)] for_fields_append that(8)
      by (simp add: for_body_unresolved [OF that(9)])
    then show ?thesis
      using that(1)
      by (simp add: verify_pdf_signature_def try_block_def open_rb_def print_def error_line_def cross_mark_def)
  qed
  have unnoticed: "verify_pdf_signature env w p = (w2, Inr True)"
    if "files w p = Some f" "PdfReader env f = Inr r"
      "getitem r (Dictionary (trailer r)) ''/Root'' = Inr root"
      "contains root ''/AcroForm'' = Inr True"
      "getitem r root ''/AcroForm'' = Inr acroform"
      "contains acroform ''/Fields'' = Inr True"
      "getitem r acroform ''/Fields'' = Inr (Array (pre @ x # post))"
      "for_fields env r
            (w\<lparr>stdout := stdout w @
               [[CHR 0xE2, CHR 0x9C, CHR 0x93] @ '' PDF has AcroForm signature structure'',
                [CHR 0xE2, CHR 0x9C, CHR 0x93] @ '' Found '' @ str_nat (length (pre @ x # post))
                  @ '' signature field(s)'']\<rparr>) pre = (w1, Inr ())"
      "get_object r x = Inr (Dictionary field)"
      "getitem r (Dictionary field) ''/FT'' = Inr ft"
      "str_eq ft ''/Sig''"
      "getitem r (Dictionary field) ''/V'' = Inr (Dictionary field)"
      "for_fields env r (fst (for_body env r w1 x)) post = (w2, Inr ())"
    for f r root acroform pre x post field ft w1 w2
  proof -
    have ok: "snd (for_body env r w1 x) = Inr ()"
      by (rule for_body_cycle [OF that(9-12)])
    have "with_block env w f = (w2, Inr True)"
      unfolding with_block_loop [OF that(2-7)] for_fields_append that(8)
      using ok that(13) by (cases "for_body env r w1 x") simp
    then show ?thesis
      using that(1) by (simp add: verify_pdf_signature_def try_block_def open_rb_def)
  qed
  show ?thesis
    apply (intro conjI allI impI)
      apply (elim conjE, erule (8) raised)
     apply (elim conjE, erule (3) for_body_cycle_lines)
    apply (elim conjE, erule (12) unnoticed)
    done
qed


theorem resolution_left_to_library_witness:
  "verify_pdf_signature example_env example_world ''selfref.pdf'' =
      (example_world\<lparr>stdout :=
         [[CHR 0xE2, CHR 0x9C, CHR 0x93] @ '' PDF has AcroForm signature structure'',
          [CHR 0xE2, CHR 0x9C, CHR 0x93] @ '' Found 2 signature field(s)'',
          [CHR 0xE2, CHR 0x9C, CHR 0x97] @ '' Error reading PDF: maximum recursion depth exceeded'']\<rparr>,
       Inr False)
   \<and> for_body example_env cyclic_reader example_world (Indirect 3 0) =
      (example_world\<lparr>stdout :=
         [CHR 0x0A # [CHR 0xF0, CHR 0x9F, CHR 0x93, CHR 0x9D] @ '' Signature Details:'',
          ''   - Field Name: loop'', ''   - Filter: Unknown'', ''   - SubFilter: Unknown'',
          ''   - Reason: N/A'', ''   - Location: N/A'', ''   - Date: N/A'', ''   - Signer: Unknown'']\<rparr>,
       Inr ())
   \<and> snd (verify_pdf_signature example_env example_world ''cyclic.pdf'') = Inr True"
proof -
  note c = resolution_left_to_library [of example_world _ example_env]
  have out: "stdout example_world = []"
    by (simp add: example_world_def)
  have two: "str_nat (length ([Indirect 4 0] @ Indirect 3 0 # [])) = ''2''"
    by (simp add: str_nat.simps)
  have one: "str_nat (length ([] @ Indirect 3 0 # [])) = ''1''"
    by (simp add: str_nat.simps)
  have "files example_world ''selfref.pdf'' = Some ''selfref'' \<and> PdfReader example_env ''selfref'' = Inr selfref_reader
       \<and> getitem selfref_reader (Dictionary (trailer selfref_reader)) ''/Root'' = Inr (Dictionary [(''/AcroForm'', Indirect 2 0)])
       \<and> contains (Dictionary [(''/AcroForm'', Indirect 2 0)]) ''/AcroForm'' = Inr True
       \<and> getitem selfref_reader (Dictionary [(''/AcroForm'', Indirect 2 0)]) ''/AcroForm''
            = Inr (Dictionary [(''/Fields'', Array [Indirect 4 0, Indirect 3 0])])
       \<and> contains (Dictionary [(''/Fields'', Array [Indirect 4 0, Indirect 3 0])]) ''/Fields'' = Inr True
       \<and> getitem selfref_reader (Dictionary [(''/Fields'', Array [Indirect 4 0, Indirect 3 0])]) ''/Fields''
            = Inr (Array ([Indirect 4 0] @ Indirect 3 0 # []))
       \<and> for_fields example_env selfref_reader
            (example_world\<lparr>stdout := stdout example_world @
               [[CHR 0xE2, CHR 0x9C, CHR 0x93] @ '' PDF has AcroForm signature structure'',
                [CHR 0xE2, CHR 0x9C, CHR 0x93] @ '' Found '' @ str_nat (length ([Indirect 4 0] @ Indirect 3 0 # []))
                  @ '' signature field(s)'']\<rparr>) [Indirect 4 0]
            = (example_world\<lparr>stdout :=
               [[CHR 0xE2, CHR 0x9C, CHR 0x93] @ '' PDF has AcroForm signature structure'',
                [CHR 0xE2, CHR 0x9C, CHR 0x93] @ '' Found 2 signature field(s)'']\<rparr>, Inr ())
       \<and> resolve selfref_reader 3 0 = Inl (LibraryError ''maximum recursion depth exceeded'')"
    unfolding two by (simp add: ex_defs for_body_def)
  then have "verify_pdf_signature example_env example_world ''selfref.pdf'' =
      ((example_world\<lparr>stdout :=
               [[CHR 0xE2, CHR 0x9C, CHR 0x93] @ '' PDF has AcroForm signature structure'',
                [CHR 0xE2, CHR 0x9C, CHR 0x93] @ '' Found 2 signature field(s)'']\<rparr>)
         \<lparr>stdout := stdout (example_world\<lparr>stdout :=
               [[CHR 0xE2, CHR 0x9C, CHR 0x93] @ '' PDF has AcroForm signature structure'',
                [CHR 0xE2, CHR 0x9C, CHR 0x93] @ '' Found 2 signature field(s)'']\<rparr>) @
              [[CHR 0xE2, CHR 0x9C, CHR 0x97] @ '' Error reading PDF: ''
                 @ str_exn example_env (LibraryError ''maximum recursion depth exceeded'')]\<rparr>, Inr False)"
    using c [of "''selfref.pdf''", THEN conjunct1] by blast
  then have a: "verify_pdf_signature example_env example_world ''selfref.pdf'' =
      (example_world\<lparr>stdout :=
         [[CHR 0xE2, CHR 0x9C, CHR 0x93] @ '' PDF has AcroForm signature structure'',
          [CHR 0xE2, CHR 0x9C, CHR 0x93] @ '' Found 2 signature field(s)'',
          [CHR 0xE2, CHR 0x9C, CHR 0x97] @ '' Error reading PDF: maximum recursion depth exceeded'']\<rparr>,
       Inr False)"
    by (simp add: example_env_def)
  have cyc: "get_object cyclic_reader (Indirect 3 0) =
          Inr (Dictionary [(''/FT'', Name ''/Sig''), (''/T'', Text ''loop''), (''/V'', Indirect 3 0)])
      \<and> getitem cyclic_reader (Dictionary [(''/FT'', Name ''/Sig''), (''/T'', Text ''loop''), (''/V'', Indirect 3 0)]) ''/FT''
          = Inr (Name ''/Sig'')
      \<and> str_eq (Name ''/Sig'') ''/Sig''
      \<and> getitem cyclic_reader (Dictionary [(''/FT'', Name ''/Sig''), (''/T'', Text ''loop''), (''/V'', Indirect 3 0)]) ''/V''
          = Inr (Dictionary [(''/FT'', Name ''/Sig''), (''/T'', Text ''loop''), (''/V'', Indirect 3 0)])"
    by (simp add: ex_defs)
  from c [of "''cyclic.pdf''", THEN conjunct2, THEN conjunct1, rule_format, OF cyc, of example_world]
  have b: "for_body example_env cyclic_reader example_world (Indirect 3 0) =
      (example_world\<lparr>stdout :=
         [CHR 0x0A # [CHR 0xF0, CHR 0x9F, CHR 0x93, CHR 0x9D] @ '' Signature Details:'',
          ''   - Field Name: loop'', ''   - Filter: Unknown'', ''   - SubFilter: Unknown'',
          ''   - Reason: N/A'', ''   - Location: N/A'', ''   - Date: N/A'', ''   - Signer: Unknown'']\<rparr>,
       Inr ())"
    by (simp add: out)
  have "files example_world ''cyclic.pdf'' = Some ''cyclic'' \<and> PdfReader example_env ''cyclic'' = Inr cyclic_reader
       \<and> getitem cyclic_reader (Dictionary (trailer cyclic_reader)) ''/Root'' = Inr (Dictionary [(''/AcroForm'', Indirect 2 0)])
       \<and> contains (Dictionary [(''/AcroForm'', Indirect 2 0)]) ''/AcroForm'' = Inr True
       \<and> getitem cyclic_reader (Dictionary [(''/AcroForm'', Indirect 2 0)]) ''/AcroForm''
            = Inr (Dictionary [(''/Fields'', Array [Indirect 3 0])])
       \<and> contains (Dictionary [(''/Fields'', Array [Indirect 3 0])]) ''/Fields'' = Inr True
       \<and> getitem cyclic_reader (Dictionary [(''/Fields'', Array [Indirect 3 0])]) ''/Fields''
            = Inr (Array ([] @ Indirect 3 0 # []))
       \<and> for_fields example_env cyclic_reader
            (example_world\<lparr>stdout := stdout example_world @
               [[CHR 0xE2, CHR 0x9C, CHR 0x93] @ '' PDF has AcroForm signature structure'',
                [CHR 0xE2, CHR 0x9C, CHR 0x93] @ '' Found '' @ str_nat (length ([] @ Indirect 3 0 # []))
                  @ '' signature field(s)'']\<rparr>) []
            = (example_world\<lparr>stdout :=
               [[CHR 0xE2, CHR 0x9C, CHR 0x93] @ '' PDF has AcroForm signature structure'',
                [CHR 0xE2, CHR 0x9C, CHR 0x93] @ '' Found 1 signature field(s)'']\<rparr>, Inr ())
       \<and> for_fields example_env cyclic_reader
            (fst (for_body example_env cyclic_reader
               (example_world\<lparr>stdout :=
                 [[CHR 0xE2, CHR 0x9C, CHR 0x93] @ '' PDF has AcroForm signature structure'',
                  [CHR 0xE2, CHR 0x9C, CHR 0x93] @ '' Found 1 signature field(s)'']\<rparr>) (Indirect 3 0))) []
            = (fst (for_body example_env cyclic_reader
               (example_world\<lparr>stdout :=
                 [[CHR 0xE2, CHR 0x9C, CHR 0x93] @ '' PDF has AcroForm signature structure'',
                  [CHR 0xE2, CHR 0x9C, CHR 0x93] @ '' Found 1 signature field(s)'']\<rparr>) (Indirect 3 0)), Inr ())"
    unfolding one by (simp add: ex_defs)
  with cyc have "verify_pdf_signature example_env example_world ''cyclic.pdf'' =
      (fst (for_body example_env cyclic_reader
               (example_world\<lparr>stdout :=
                 [[CHR 0xE2, CHR 0x9C, CHR 0x93] @ '' PDF has AcroForm signature structure'',
                  [CHR 0xE2, CHR 0x9C, CHR 0x93] @ '' Found 1 signature field(s)'']\<rparr>) (Indirect 3 0)), Inr True)"
    using c [of "''cyclic.pdf''", THEN conjunct2, THEN conjunct2] by blast
  then have d: "snd (verify_pdf_signature example_env example_world ''cyclic.pdf'') = Inr True"
    by simp
  from a b d show ?thesis by (intro conjI)
qed


subsection \<open>Repeated runs\<close>

text \<open>
  Claim C8. Two runs on identical input bytes are to print the same lines and return
  the same value. An entry that is stored as a reference is printed unresolved (see
  claim C4), and the text of a reference holds \<^verbatim>\<open>id(pdf_reader)\<close>, the address of the reader
  in the run at hand. Two runs that differ in nothing but that address return the
  same value and print different lines for \<open>byref_reader\<close>.
\<close>

theorem output_differs_between_runs:
  "PdfReader (example_env\<lparr>reader_id := 139872\<rparr>) = PdfReader example_env
   \<and> verify_pdf_signature example_env example_world ''byref.pdf'' =
       (example_world\<lparr>stdout :=
          [[CHR 0xE2, CHR 0x9C, CHR 0x93] @ '' PDF has AcroForm signature structure'',
           [CHR 0xE2, CHR 0x9C, CHR 0x93] @ '' Found 1 signature field(s)'',
           CHR 0x0A # [CHR 0xF0, CHR 0x9F, CHR 0x93, CHR 0x9D] @ '' Signature Details:'',
           ''   - Field Name: IndirectObject(4, 0, 140224)'',
           ''   - Filter: /Adobe.PPKLite'',
           ''   - SubFilter: Unknown'',
           ''   - Reason: IndirectObject(6, 0, 140224)'',
           ''   - Location: N/A'',
           ''   - Date: N/A'',
           ''   - Signer: Unknown'']\<rparr>, Inr True)
   \<and> verify_pdf_signature (example_env\<lparr>reader_id := 139872\<rparr>) example_world ''byref.pdf'' =
       (example_world\<lparr>stdout :=
          [[CHR 0xE2, CHR 0x9C, CHR 0x93] @ '' PDF has AcroForm signature structure'',
           [CHR 0xE2, CHR 0x9C, CHR 0x93] @ '' Found 1 signature field(s)'',
           CHR 0x0A # [CHR 0xF0, CHR 0x9F, CHR 0x93, CHR 0x9D] @ '' Signature Details:'',
           ''   - Field Name: IndirectObject(4, 0, 139872)'',
           ''   - Filter: /Adobe.PPKLite'',
           ''   - SubFilter: Unknown'',
           ''   - Reason: IndirectObject(6, 0, 139872)'',
           ''   - Location: N/A'',
           ''   - Date: N/A'',
           ''   - Signer: Unknown'']\<rparr>, Inr True)"
  by (simp add: run_defs ex_defs acroform_line_def found_line_def details_line_def check_mark_def
        memo_sign_def str_nat.simps)


end
